theory Spec2Isabelle
  imports Complex_Main "HOL-Library.Word"
begin

section \<open>Speech events and the recording manager (services/manage\_recording.py)\<close>

text \<open>
  Timestamps are the values of Python's \<open>time.time()\<close>; the model takes them as exact
  rationals, so comparison and subtraction are those of the numbers the floats denote.
  Audio frames are byte strings.
\<close>

type_synonym bytes = "8 word list"

datatype speech_event =
    SPEECH_START_POTENTIAL
  | SPEECH_STARTED
  | SPEECH_END_POTENTIAL
  | SPEECH_ENDED
  | FALSE_START
  | FALSE_END
  | NEW_TRANSCRIPTION

text \<open>
  The value returned by the VAD iterator: \<open>None\<close>, or a dictionary that may hold the keys
  \<open>'start'\<close> and \<open>'end'\<close> (the state machine only tests which keys are present).
\<close>

datatype vad_result = VadNone | VadDict "rat option" "rat option"

fun has_start :: "vad_result \<Rightarrow> bool" where
  "has_start VadNone = False"
| "has_start (VadDict s e) = (s \<noteq> None)"

fun has_end :: "vad_result \<Rightarrow> bool" where
  "has_end VadNone = False"
| "has_end (VadDict s e) = (e \<noteq> None)"

text \<open>The values of \<open>pipeline_state\<close> other than \<open>None\<close>: the strings
  \<open>'false'\<close>, \<open>'confirmed'\<close> and \<open>'cancelled'\<close>.\<close>

datatype pipeline_tag = PS_false | PS_confirmed | PS_cancelled

record audio_config =
  chunk :: int
  rate :: int
  buffer_size :: nat
  speech_start_threshold :: rat
  speech_end_threshold :: rat

text \<open>
  The attributes of \<open>RecordingManager\<close> that the state machine, \<open>save_speech\<close> and
  \<open>reset\<close> read or write. \<open>vad_states\<close> is the internal state of the external VAD
  iterator object, of a type the model leaves open.
\<close>

record 'v recording_manager =
  audio_buffer :: "bytes list"
  chunk_times :: "rat list"
  vad_states :: 'v
  speech_start_time :: "rat option"
  speech_end_time :: "rat option"
  speech_start_potential :: bool
  speech_end_potential :: bool
  speech_started :: bool
  speech_detected :: bool
  speech_ended :: bool
  latest_transcription :: "string option"
  is_recording :: bool
  current_pipeline_id :: "rat option"
  pipeline_state :: "pipeline_tag option"
  pipeline_processing :: bool

text \<open>Python truth value of an optional float: \<open>None\<close> and \<open>0.0\<close> are false.\<close>

fun truthy :: "rat option \<Rightarrow> bool" where
  "truthy None = False"
| "truthy (Some t) = (t \<noteq> 0)"

text \<open>\<open>deque(maxlen=n).append(x)\<close>: the oldest entries are dropped once the bound is
  exceeded.\<close>

definition deque_append :: "nat \<Rightarrow> 'a list \<Rightarrow> 'a \<Rightarrow> 'a list" where
  "deque_append n xs x = drop (length xs + 1 - n) (xs @ [x])"

text \<open>
  One captured frame: the bytes read, the clock value taken right after the read
  (\<open>current_time\<close>), the VAD result for the frame, and the clock value that line 146
  reads for the new pipeline id.
\<close>

record frame_input =
  frame_data :: bytes
  current_time :: rat
  vad :: vad_result
  id_clock :: rat

text \<open>
  One iteration of the loop of \<open>_continuous_recording\<close>, from the buffer update on, for
  a stream that is active and a read that succeeds. The result is the new state and the
  events emitted, in order. A subtraction from a start or end time that is \<open>None\<close> raises
  \<open>TypeError\<close>; the handler of the loop then clears \<open>is_recording\<close>.
\<close>

definition process_frame ::
  "audio_config \<Rightarrow> 'v recording_manager \<Rightarrow> frame_input \<Rightarrow> 'v recording_manager \<times> speech_event list"
where
  "process_frame cfg m0 inp =
    (let t = current_time inp;
         v = vad inp;
         m = m0\<lparr>audio_buffer := deque_append (buffer_size cfg) (audio_buffer m0) (frame_data inp),
                chunk_times := deque_append (buffer_size cfg) (chunk_times m0) t\<rparr>
     in
     if has_start v \<and> \<not> speech_started m then
       (let m1 = m\<lparr>speech_start_time := Some t,
                    speech_start_potential := True,
                    speech_end_potential := False\<rparr>
        in (if \<not> (truthy (current_pipeline_id m1) \<and> pipeline_state m1 = Some PS_confirmed
                   \<and> pipeline_processing m1)
            then m1\<lparr>current_pipeline_id := None, pipeline_state := None,
                    pipeline_processing := False\<rparr>
            else m1,
            [SPEECH_START_POTENTIAL]))
     else if v = VadNone \<and> speech_start_potential m \<and> \<not> speech_started m then
       (case speech_start_time m of
          None \<Rightarrow> (m\<lparr>is_recording := False\<rparr>, [])
        | Some st \<Rightarrow>
            if t - st \<ge> speech_start_threshold cfg
            then (m\<lparr>speech_started := True, speech_start_potential := False,
                     speech_detected := True\<rparr>, [SPEECH_STARTED])
            else (m, []))
     else if has_end v \<and> speech_started m then
       (if \<not> speech_end_potential m
        then (m\<lparr>speech_end_time := Some t, speech_end_potential := True,
                 current_pipeline_id := Some (id_clock inp), pipeline_state := None,
                 pipeline_processing := False\<rparr>, [SPEECH_END_POTENTIAL])
        else (m, []))
     else if v = VadNone \<and> speech_started m \<and> speech_end_potential m then
       (case speech_end_time m of
          None \<Rightarrow> (m\<lparr>is_recording := False\<rparr>, [])
        | Some et \<Rightarrow>
            if t - et \<ge> speech_end_threshold cfg
            then ((if truthy (current_pipeline_id m)
                   then m\<lparr>speech_started := False, speech_end_potential := False,
                          pipeline_state := Some PS_confirmed, speech_ended := True\<rparr>
                   else m\<lparr>speech_started := False, speech_end_potential := False,
                          speech_ended := True\<rparr>), [SPEECH_ENDED])
            else (m, []))
     else if has_end v \<and> speech_start_potential m \<and> \<not> speech_started m then
       (m\<lparr>speech_start_potential := False, speech_start_time := None\<rparr>, [FALSE_START])
     else if has_start v \<and> speech_started m \<and> speech_end_potential m then
       (let m1 = m\<lparr>speech_end_potential := False, speech_end_time := None\<rparr>
        in (if truthy (current_pipeline_id m1) \<and> \<not> pipeline_state m1 = Some PS_confirmed
            then m1\<lparr>pipeline_state := Some PS_false\<rparr>
            else m1,
            [FALSE_END]))
     else (m, []))"

text \<open>\<open>RecordingManager.reset\<close>; \<open>reset_states\<close> is the method of the VAD iterator.\<close>

definition reset :: "('v \<Rightarrow> 'v) \<Rightarrow> 'v recording_manager \<Rightarrow> 'v recording_manager" where
  "reset reset_states m =
     m\<lparr>vad_states := reset_states (vad_states m),
       speech_start_time := None,
       speech_end_time := None,
       speech_start_potential := False,
       speech_end_potential := False,
       speech_started := False,
       speech_detected := False,
       speech_ended := False\<rparr>"


section \<open>Extraction of a speech segment (\<open>RecordingManager.save_speech\<close>)\<close>

datatype py_error = TypeError | ZeroDivisionError

text \<open>Position of the first element satisfying a test: the \<open>for ... if ...: break\<close>
  scans of \<open>save_speech\<close>.\<close>

fun first_index :: "('a \<Rightarrow> bool) \<Rightarrow> 'a list \<Rightarrow> nat option" where
  "first_index P [] = None"
| "first_index P (x # xs) = (if P x then Some 0 else map_option Suc (first_index P xs))"

text \<open>\<open>int((self.speech_end_threshold * self.rate) // self.chunk)\<close>, for a chunk size
  other than zero.\<close>

definition backoff :: "audio_config \<Rightarrow> int" where
  "backoff cfg = \<lfloor>speech_end_threshold cfg * of_int (rate cfg) / of_int (chunk cfg)\<rfloor>"

record speech_slice =
  start_idx :: nat
  end_idx :: nat
  speech_data :: "bytes list"

text \<open>
  The first scan: \<open>start_idx\<close> stays 0 unless a chunk time reaches \<open>start_time\<close>. Comparing
  a chunk time with a start time that is \<open>None\<close> raises \<open>TypeError\<close>, and the floor
  division raises \<open>ZeroDivisionError\<close> for a chunk size of zero.
\<close>

definition find_start_idx :: "audio_config \<Rightarrow> rat list \<Rightarrow> rat option \<Rightarrow> py_error + nat" where
  "find_start_idx cfg cts start_time =
     (case cts of
        [] \<Rightarrow> Inr 0
      | _ # _ \<Rightarrow>
         (case start_time of
            None \<Rightarrow> Inl TypeError
          | Some st \<Rightarrow>
             (case first_index (\<lambda>ct. ct \<ge> st) cts of
                None \<Rightarrow> Inr 0
              | Some i \<Rightarrow>
                  if chunk cfg = 0 then Inl ZeroDivisionError
                  else Inr (nat (max 0 (int i - backoff cfg))))))"

text \<open>The second scan, over \<open>chunk_times_list[start_idx:]\<close> numbered from
  \<open>start_idx\<close>.\<close>

definition find_end_idx :: "rat list \<Rightarrow> nat \<Rightarrow> rat \<Rightarrow> nat" where
  "find_end_idx cts si end_time =
     (case first_index (\<lambda>ct. ct > end_time) (drop si cts) of
        None \<Rightarrow> length cts
      | Some j \<Rightarrow> min (length cts) (si + j + 1))"

text \<open>
  \<open>save_speech\<close>, with \<open>now\<close> the clock value used when no end time is recorded. The
  result is the manager (whose \<open>pipeline_processing\<close> is set before anything can fail)
  and either the error raised or the slice whose bytes are written to the file.
\<close>

definition save_speech ::
  "audio_config \<Rightarrow> rat \<Rightarrow> 'v recording_manager \<Rightarrow> 'v recording_manager \<times> (py_error + speech_slice)"
where
  "save_speech cfg now m0 =
     (let m = (if truthy (current_pipeline_id m0) then m0\<lparr>pipeline_processing := True\<rparr> else m0);
          start_time = speech_start_time m;
          end_time = (if truthy (speech_end_time m)
                      then (case speech_end_time m of Some e \<Rightarrow> e | None \<Rightarrow> now)
                      else now);
          cts = chunk_times m;
          audio = audio_buffer m
      in case find_start_idx cfg cts start_time of
           Inl err \<Rightarrow> (m, Inl err)
         | Inr si \<Rightarrow>
             (let ei = find_end_idx cts si end_time
              in (m, Inr \<lparr>start_idx = si, end_idx = ei,
                         speech_data = drop si (take ei audio)\<rparr>)))"

section \<open>Interleaving of the capture loop with the processing loop\<close>

text \<open>
  The capture thread runs \<open>process_frame\<close>; the processing thread of
  \<open>AudioRecordingService\<close> calls \<open>save_speech\<close> and \<open>reset\<close> on the same manager.
  A run is a sequence of these three operations, each taken as one step.
\<close>

datatype action = Frame frame_input | SaveSpeech rat | Reset

fun apply_action ::
  "audio_config \<Rightarrow> ('v \<Rightarrow> 'v) \<Rightarrow> 'v recording_manager \<Rightarrow> action
     \<Rightarrow> 'v recording_manager \<times> speech_event list"
where
  "apply_action cfg rs m (Frame inp) = process_frame cfg m inp"
| "apply_action cfg rs m (SaveSpeech now) = (fst (save_speech cfg now m), [])"
| "apply_action cfg rs m Reset = (reset rs m, [])"

fun run ::
  "audio_config \<Rightarrow> ('v \<Rightarrow> 'v) \<Rightarrow> 'v recording_manager \<Rightarrow> action list
     \<Rightarrow> 'v recording_manager \<times> speech_event list"
where
  "run cfg rs m [] = (m, [])"
| "run cfg rs m (a # as) =
     (case apply_action cfg rs m a of
        (m1, evs1) \<Rightarrow> (case run cfg rs m1 as of (m2, evs2) \<Rightarrow> (m2, evs1 @ evs2)))"

text \<open>The configuration shipped with the program (chunk 512, rate 16000, 120 seconds of
  buffer, both thresholds 0.6 s) and a manager as \<open>__init__\<close> leaves it.\<close>

definition default_config :: audio_config where
  "default_config = \<lparr>chunk = 512, rate = 16000, buffer_size = 3750,
     speech_start_threshold = 3 / 5, speech_end_threshold = 3 / 5\<rparr>"

definition initial_manager :: "unit recording_manager" where
  "initial_manager = \<lparr>audio_buffer = [], chunk_times = [], vad_states = (),
     speech_start_time = None, speech_end_time = None,
     speech_start_potential = False, speech_end_potential = False,
     speech_started = False, speech_detected = False, speech_ended = False,
     latest_transcription = None, is_recording = True,
     current_pipeline_id = None, pipeline_state = None, pipeline_processing = False\<rparr>"

definition frame_at :: "rat \<Rightarrow> bytes \<Rightarrow> vad_result \<Rightarrow> frame_input" where
  "frame_at t d v = \<lparr>frame_data = d, current_time = t, vad = v, id_clock = t\<rparr>"

text \<open>
  A first utterance up to its potential end (start at 1 s, started at 2 s, end at 3 s), and
  what follows it: the processing loop saves the segment, the end is confirmed at 4 s, the
  processing loop resets the state machine, and a second utterance starts at 5 s.
\<close>

definition first_turn :: "action list" where
  "first_turn = [Frame (frame_at 1 [1] (VadDict (Some 1) None)), Frame (frame_at 2 [2] VadNone),
     Frame (frame_at 3 [3] (VadDict None (Some 3)))]"

definition second_turn_start :: "action list" where
  "second_turn_start = [SaveSpeech 3, Frame (frame_at 4 [4] VadNone), Reset,
     Frame (frame_at 5 [5] (VadDict (Some 5) None)), Frame (frame_at 6 [6] VadNone)]"

definition end_potential_manager :: "unit recording_manager" where
  "end_potential_manager = fst (run default_config id initial_manager first_turn)"

definition confirmed_processing_manager :: "unit recording_manager" where
  "confirmed_processing_manager =
     fst (run default_config id end_potential_manager second_turn_start)"



text \<open>A manager in the state Started with a potential end whose pipeline is marked
  confirmed.\<close>

definition confirmed_end_potential_manager :: "unit recording_manager" where
  "confirmed_end_potential_manager =
     confirmed_processing_manager\<lparr>speech_end_potential := True, speech_end_time := Some 6\<rparr>"

section \<open>Audio output (services/audio\_device\_manager.py, services/interaction/audio.py)\<close>

text \<open>
  The PyAudio library is external. Its operations act on a world \<open>'w\<close> (the sound hardware)
  and on stream handles \<open>'s\<close>; each may raise, which the model shows as \<open>None\<close> or
  \<open>False\<close> in the first component of the result.
\<close>

record ('w, 's) pyaudio_ops =
  pa_open :: "'w \<Rightarrow> 's option \<times> 'w"
  pa_is_active :: "'s \<Rightarrow> 'w \<Rightarrow> bool option \<times> 'w"
  pa_write :: "'s \<Rightarrow> bytes \<Rightarrow> 'w \<Rightarrow> bool \<times> 'w"
  pa_stop_stream :: "'s \<Rightarrow> 'w \<Rightarrow> bool \<times> 'w"
  pa_close :: "'s \<Rightarrow> 'w \<Rightarrow> bool \<times> 'w"

text \<open>
  The attributes of \<open>AudioDeviceManager\<close> (\<open>_active_streams\<close>, \<open>_input_stream\<close>,
  \<open>_output_stream\<close>) and of \<open>AudioProcessor\<close> (\<open>queued_audio\<close>, \<open>_output_stream\<close>),
  with the \<open>playback_complete\<close> event of the interaction manager. A queue entry is
  \<open>None\<close> when text-to-speech failed for its sentence.
\<close>

record ('w, 's) audio_state =
  world :: 'w
  active_streams :: "string \<Rightarrow> 's option"
  dm_input_stream :: "'s option"
  dm_output_stream :: "'s option"
  queued_audio :: "bytes option list"
  output_stream :: "'s option"
  playback_complete :: bool

text \<open>How a call ends: it returns, it raises, or it waits for an event that no step of the
  same thread will set.\<close>

datatype 'a outcome = Returned 'a | Raised 'a | Blocked

text \<open>\<open>AudioDeviceManager.create_output_stream\<close>.\<close>

definition create_output_stream ::
  "('w, 's) pyaudio_ops \<Rightarrow> ('w, 's) audio_state \<Rightarrow> 's option \<times> ('w, 's) audio_state"
where
  "create_output_stream ops a =
     (case pa_open ops (world a) of
        (None, w) \<Rightarrow> (None, a\<lparr>world := w\<rparr>)
      | (Some st, w) \<Rightarrow>
          (Some st, a\<lparr>world := w, active_streams := (active_streams a)(''output'' \<mapsto> st)\<rparr>))"

text \<open>\<open>AudioDeviceManager.close_stream\<close>; the first component is \<open>False\<close> when
  \<open>stop_stream\<close> or \<open>close\<close> raises.\<close>

definition close_stream ::
  "('w, 's) pyaudio_ops \<Rightarrow> string \<Rightarrow> ('w, 's) audio_state \<Rightarrow> bool \<times> ('w, 's) audio_state"
where
  "close_stream ops stream_type a =
     (case active_streams a stream_type of
        None \<Rightarrow> (True, a)
      | Some st \<Rightarrow>
         (case pa_stop_stream ops st (world a) of
            (False, w) \<Rightarrow> (False, a\<lparr>world := w\<rparr>)
          | (True, w) \<Rightarrow>
             (case pa_close ops st w of
                (False, w') \<Rightarrow> (False, a\<lparr>world := w'\<rparr>)
              | (True, w') \<Rightarrow>
                 (let a1 = a\<lparr>world := w',
                              active_streams := (active_streams a)(stream_type := None)\<rparr>
                  in (True,
                      if stream_type = ''input'' then a1\<lparr>dm_input_stream := None\<rparr>
                      else if stream_type = ''output'' then a1\<lparr>dm_output_stream := None\<rparr>
                      else a1)))))"

text \<open>\<open>AudioProcessor._ensure_output_stream\<close>; \<open>None\<close> when it raises.\<close>

definition ensure_output_stream ::
  "('w, 's) pyaudio_ops \<Rightarrow> ('w, 's) audio_state \<Rightarrow> 's option \<times> ('w, 's) audio_state"
where
  "ensure_output_stream ops a =
     (let create = (\<lambda>a0. case create_output_stream ops a0 of
                            (None, a1) \<Rightarrow> (None, a1)
                          | (Some st, a1) \<Rightarrow> (Some st, a1\<lparr>output_stream := Some st\<rparr>))
      in case output_stream a of
           None \<Rightarrow> create a
         | Some st \<Rightarrow>
            (case pa_is_active ops st (world a) of
               (None, w) \<Rightarrow> (None, a\<lparr>world := w\<rparr>)
             | (Some True, w) \<Rightarrow> (Some st, a\<lparr>world := w\<rparr>)
             | (Some False, w) \<Rightarrow> create (a\<lparr>world := w\<rparr>)))"

text \<open>The successive results of \<open>audio_buffer.read(chunk_size)\<close> up to the empty one.\<close>

function read_chunks :: "nat \<Rightarrow> bytes \<Rightarrow> bytes list" where
  "read_chunks n bs = (if bs = [] \<or> n = 0 then [] else take n bs # read_chunks n (drop n bs))"
  by pat_completeness auto
termination
  by (relation "measure (\<lambda>(n, bs). length bs)") auto

fun write_chunks ::
  "('w, 's) pyaudio_ops \<Rightarrow> 's \<Rightarrow> bytes list \<Rightarrow> 'w \<Rightarrow> bool \<times> 'w"
where
  "write_chunks ops st [] w = (True, w)"
| "write_chunks ops st (c # cs) w =
     (case pa_write ops st c w of
        (False, w') \<Rightarrow> (False, w')
      | (True, w') \<Rightarrow> write_chunks ops st cs w')"

text \<open>The \<open>try\<close> block of \<open>play_audio_now\<close>; \<open>io.BytesIO(None)\<close> is an empty buffer. The
  first component is \<open>False\<close> when the block raises.\<close>

definition try_play ::
  "('w, 's) pyaudio_ops \<Rightarrow> bytes option \<Rightarrow> ('w, 's) audio_state \<Rightarrow> bool \<times> ('w, 's) audio_state"
where
  "try_play ops audio_data a =
     (case ensure_output_stream ops a of
        (None, a1) \<Rightarrow> (False, a1)
      | (Some st, a1) \<Rightarrow>
         (case write_chunks ops st
                 (read_chunks 1024 (case audio_data of None \<Rightarrow> [] | Some bs \<Rightarrow> bs)) (world a1) of
            (ok, w) \<Rightarrow> (ok, a1\<lparr>world := w\<rparr>)))"

text \<open>\<open>AudioProcessor.play_audio_now\<close>: wait for and clear the event, the \<open>try\<close> block,
  the handler that tears the stream down, and the \<open>finally\<close> clause that sets the event.\<close>

definition play_audio_now ::
  "('w, 's) pyaudio_ops \<Rightarrow> bytes option \<Rightarrow> ('w, 's) audio_state \<Rightarrow> ('w, 's) audio_state outcome"
where
  "play_audio_now ops audio_data a =
     (if \<not> playback_complete a then Blocked
      else
        (case try_play ops audio_data (a\<lparr>playback_complete := False\<rparr>) of
           (True, a1) \<Rightarrow> Returned (a1\<lparr>playback_complete := True\<rparr>)
         | (False, a1) \<Rightarrow>
            (case output_stream a1 of
               None \<Rightarrow> Returned (a1\<lparr>playback_complete := True\<rparr>)
             | Some st \<Rightarrow>
                (case close_stream ops ''output'' a1 of
                   (False, a2) \<Rightarrow> Raised (a2\<lparr>playback_complete := True\<rparr>)
                 | (True, a2) \<Rightarrow>
                     Returned (a2\<lparr>output_stream := None, playback_complete := True\<rparr>)))))"

text \<open>\<open>AudioProcessor.queue_audio\<close>.\<close>

definition queue_audio :: "bytes option \<Rightarrow> ('w, 's) audio_state \<Rightarrow> ('w, 's) audio_state" where
  "queue_audio audio_data a = a\<lparr>queued_audio := queued_audio a @ [audio_data]\<rparr>"

text \<open>The loop of \<open>play_queued_audio\<close> over the queue, and the method itself, which
  empties the queue once the loop has run to its end.\<close>

fun play_entries ::
  "('w, 's) pyaudio_ops \<Rightarrow> bytes option list \<Rightarrow> ('w, 's) audio_state
     \<Rightarrow> ('w, 's) audio_state outcome"
where
  "play_entries ops [] a = Returned a"
| "play_entries ops (x # xs) a =
     (case play_audio_now ops x a of
        Returned a' \<Rightarrow> play_entries ops xs a'
      | Raised a' \<Rightarrow> Raised a'
      | Blocked \<Rightarrow> Blocked)"

definition play_queued_audio ::
  "('w, 's) pyaudio_ops \<Rightarrow> ('w, 's) audio_state \<Rightarrow> ('w, 's) audio_state outcome"
where
  "play_queued_audio ops a =
     (case play_entries ops (queued_audio a) a of
        Returned a' \<Rightarrow> Returned (a'\<lparr>queued_audio := []\<rparr>)
      | Raised a' \<Rightarrow> Raised a'
      | Blocked \<Rightarrow> Blocked)"

text \<open>
  A device for the examples. Its world records the chunks written to each stream, the
  streams closed and the number of streams opened. Writing to stream 0 raises; stopping a
  stream raises unless \<open>stop_ok\<close>.
\<close>

record test_world =
  written :: "(nat \<times> bytes) list"
  closed :: "nat list"
  next_stream :: nat

definition test_ops :: "bool \<Rightarrow> (test_world, nat) pyaudio_ops" where
  "test_ops stop_ok =
     \<lparr>pa_open = (\<lambda>w. (Some (next_stream w), w\<lparr>next_stream := Suc (next_stream w)\<rparr>)),
      pa_is_active = (\<lambda>st w. (Some (st \<notin> set (closed w)), w)),
      pa_write = (\<lambda>st c w. if st = 0 then (False, w)
                            else (True, w\<lparr>written := written w @ [(st, c)]\<rparr>)),
      pa_stop_stream = (\<lambda>st w. (stop_ok, w)),
      pa_close = (\<lambda>st w. (True, w\<lparr>closed := closed w @ [st]\<rparr>))\<rparr>"

text \<open>The processor holds stream 0, opened through the device manager, and two queued
  entries.\<close>

definition broken_sink_state :: "(test_world, nat) audio_state" where
  "broken_sink_state =
     \<lparr>world = \<lparr>written = [], closed = [], next_stream = 1\<rparr>,
      active_streams = [''output'' \<mapsto> 0],
      dm_input_stream = None, dm_output_stream = None,
      queued_audio = [Some [1, 2], Some [3]],
      output_stream = Some 0,
      playback_complete = True\<rparr>"

text \<open>Whether a call raised, and the state it left behind.\<close>

fun did_raise :: "'a outcome \<Rightarrow> bool" where
  "did_raise (Raised a) = True"
| "did_raise (Returned a) = False"
| "did_raise Blocked = False"

fun state_after :: "'a outcome \<Rightarrow> 'a option" where
  "state_after (Returned a) = Some a"
| "state_after (Raised a) = Some a"
| "state_after Blocked = None"

section \<open>The interaction manager (services/interaction/manager.py)\<close>

subsection \<open>Messages, modes and external collaborators\<close>

text \<open>
  Python strings are modelled as \<open>string\<close>; a character stands for the code point of the
  same number, so the model covers text whose code points are below 256.
\<close>

record message =
  role :: string
  content :: string

text \<open>The value \<open>json.loads\<close> returns.\<close>

datatype json =
    JNull
  | JBool bool
  | JNum rat
  | JStr string
  | JArr "json list"
  | JObj "(string \<times> json) list"

text \<open>
  What \<open>set_mode\<close> asks of a mode module: whether it has the hooks \<open>before_first_turn\<close>
  and \<open>after_attend_turn\<close> (\<open>None\<close>: no such attribute; \<open>Some b\<close>: the call returns if \<open>b\<close>
  and raises otherwise), the text and speed of the greeting in \<open>initialize\<close> if there is
  one, the system prompt, and the schema (\<open>None\<close>: no such attribute).
\<close>

record mode_module =
  mode_name :: string
  before_first_turn :: "bool option"
  greeting :: "(string \<times> rat) option"
  system_prompt :: string
  schema :: "string option"
  after_attend_turn :: "bool option"

text \<open>
  The collaborators outside the repository: PyAudio, \<open>nltk.sent_tokenize\<close>, the speech
  request of the TTS server (the chunks of audio for a text, \<open>None\<close> when the request
  fails; the greeting is requested with a speed), \<open>json.loads\<close> (\<open>None\<close> for
  \<open>JSONDecodeError\<close>) and \<open>import_module\<close> applied to \<open>modes.<next_mode>\<close> (\<open>None\<close> when
  the import fails).
\<close>

record ('w, 's) externals =
  audio_ops :: "('w, 's) pyaudio_ops"
  sent_tokenize :: "string \<Rightarrow> string list"
  speech_request :: "string \<Rightarrow> bytes list option"
  greeting_request :: "string \<Rightarrow> rat \<Rightarrow> bytes list option"
  json_loads :: "string \<Rightarrow> json option"
  import_module :: "json \<Rightarrow> mode_module option"

text \<open>
  The attributes of \<open>InteractionManager\<close>, with the state of its \<open>AudioProcessor\<close> and
  device manager in \<open>audio\<close>. \<open>tts_calls\<close> is not an attribute of the program: it logs the
  sentences passed to \<open>tts_processor.process_tts\<close>, in order.
\<close>

record ('w, 's) interaction_manager =
  messages :: "message list"
  messages_tentative :: "message list"
  json_processed :: bool
  current_response :: string
  current_pipeline :: "string option"
  current_mode :: "mode_module option"
  response_schema :: "string option"
  speech_ended_event :: bool
  audio :: "('w, 's) audio_state"
  tts_calls :: "string list"

subsection \<open>Text-to-speech and playback\<close>

text \<open>\<open>TTSProcessor.process_tts\<close>: the chunks of the reply joined, or \<open>None\<close> on any
  error.\<close>

definition process_tts :: "('w, 's) externals \<Rightarrow> string \<Rightarrow> bytes option" where
  "process_tts ext sentence = map_option concat (speech_request ext sentence)"

text \<open>\<open>InteractionManager._play_queued_audio\<close>: an exception of \<open>play_queued_audio\<close> is
  logged and dropped. The result is \<open>None\<close> when the call never returns.\<close>

definition play_queued ::
  "('w, 's) externals \<Rightarrow> ('w, 's) interaction_manager \<Rightarrow> ('w, 's) interaction_manager option"
where
  "play_queued ext s =
     (case play_queued_audio (audio_ops ext) (audio s) of
        Returned a \<Rightarrow> Some (s\<lparr>audio := a\<rparr>)
      | Raised a \<Rightarrow> Some (s\<lparr>audio := a\<rparr>)
      | Blocked \<Rightarrow> None)"

text \<open>\<open>stream_text\<close> of functions/streamtts.py, as far as it touches the audio device: it
  plays on the output stream of the device manager. The first component is \<open>False\<close> when
  it raises.\<close>

fun stream_chunks ::
  "('w, 's) pyaudio_ops \<Rightarrow> 's \<Rightarrow> bytes list \<Rightarrow> 'w \<Rightarrow> bool \<times> 'w"
where
  "stream_chunks ops st [] w = (True, w)"
| "stream_chunks ops st (c # cs) w =
     (case pa_is_active ops st w of
        (Some True, w1) \<Rightarrow>
          (case pa_write ops st c w1 of
             (False, w2) \<Rightarrow> (False, w2)
           | (True, w2) \<Rightarrow> stream_chunks ops st cs w2)
      | (_, w1) \<Rightarrow> (False, w1))"

definition stream_text ::
  "('w, 's) externals \<Rightarrow> string \<Rightarrow> rat \<Rightarrow> ('w, 's) audio_state \<Rightarrow> bool \<times> ('w, 's) audio_state"
where
  "stream_text ext text speed a =
     (case dm_output_stream a of
        None \<Rightarrow> (False, a)
      | Some st \<Rightarrow>
         (case pa_is_active (audio_ops ext) st (world a) of
            (Some True, w) \<Rightarrow>
              (case greeting_request ext text speed of
                 None \<Rightarrow> (False, a\<lparr>world := w\<rparr>)
               | Some chunks \<Rightarrow>
                  (case stream_chunks (audio_ops ext) st chunks w of
                     (ok, w') \<Rightarrow> (ok, a\<lparr>world := w'\<rparr>)))
          | (_, w) \<Rightarrow> (False, a\<lparr>world := w\<rparr>)))"

subsection \<open>Mode switching and the final structured decision\<close>

text \<open>\<open>InteractionManager.set_mode\<close>; the first component is \<open>False\<close> when it raises, the
  second is the state reached by then.\<close>

definition set_mode ::
  "('w, 's) externals \<Rightarrow> mode_module \<Rightarrow> ('w, 's) interaction_manager
     \<Rightarrow> bool \<times> ('w, 's) interaction_manager"
where
  "set_mode ext mode s =
     (let s1 = s\<lparr>current_mode := Some mode\<rparr> in
      if before_first_turn mode = Some False then (False, s1)
      else
        (case (case greeting mode of
                 None \<Rightarrow> (True, s1)
               | Some (text, speed) \<Rightarrow>
                  (case stream_text ext text speed (audio s1) of
                     (False, a) \<Rightarrow> (False, s1\<lparr>audio := a\<rparr>)
                   | (True, a) \<Rightarrow>
                       (True, s1\<lparr>audio := a,
                                 messages :=
                                   [\<lparr>role = ''system'', content = system_prompt mode\<rparr>,
                                    \<lparr>role = ''user'', content = ''Let's get to it.''\<rparr>,
                                    \<lparr>role = ''assistant'', content = text\<rparr>]\<rparr>))) of
           (False, s2) \<Rightarrow> (False, s2)
         | (True, s2) \<Rightarrow>
            (case schema mode of
               None \<Rightarrow> (False, s2)
             | Some sch \<Rightarrow>
                (let s3 = s2\<lparr>response_schema := Some sch\<rparr> in
                 if after_attend_turn mode = Some False then (False, s3)
                 else (True, s3\<lparr>messages_tentative := messages s3\<rparr>)))))"

text \<open>
  The part of \<open>parse_accumulated_response\<close> that leads to a mode switch: the response is a
  JSON object whose \<open>outputs\<close> is an object with the keys \<open>next_mode\<close> and
  \<open>activity_description\<close>. Every other path of the \<open>try\<close> block ends in a log line or in
  an exception that the handlers log; none of them changes the manager.
\<close>

definition switch_request :: "('w, 's) externals \<Rightarrow> string \<Rightarrow> (json \<times> json) option" where
  "switch_request ext response =
     (case json_loads ext response of
        Some (JObj response_data) \<Rightarrow>
          (case map_of response_data ''outputs'' of
             Some (JObj outputs) \<Rightarrow>
               (case map_of outputs ''next_mode'' of
                  None \<Rightarrow> None
                | Some next_mode \<Rightarrow>
                   (case map_of outputs ''activity_description'' of
                      None \<Rightarrow> None
                    | Some activity_description \<Rightarrow> Some (next_mode, activity_description)))
           | _ \<Rightarrow> None)
      | _ \<Rightarrow> None)"

text \<open>\<open>parse_accumulated_response\<close>. After a mode switch the import must succeed and the
  module must have a schema for \<open>set_mode\<close> to be reached; whatever \<open>set_mode\<close> raises is
  caught here.\<close>

definition parse_accumulated_response ::
  "('w, 's) externals \<Rightarrow> ('w, 's) interaction_manager \<Rightarrow> ('w, 's) interaction_manager"
where
  "parse_accumulated_response ext s =
     (let s1 = s\<lparr>json_processed := True\<rparr> in
      case switch_request ext (current_response s1) of
        None \<Rightarrow> s1
      | Some (next_mode, activity_description) \<Rightarrow>
         (case import_module ext next_mode of
            None \<Rightarrow> s1
          | Some mdl \<Rightarrow>
             (case schema mdl of
                None \<Rightarrow> s1
              | Some sch \<Rightarrow> snd (set_mode ext mdl s1))))"

subsection \<open>Event handlers\<close>

text \<open>\<open>_handle_false_end\<close>.\<close>

definition handle_false_end ::
  "('w, 's) interaction_manager \<Rightarrow> ('w, 's) interaction_manager"
where
  "handle_false_end s =
     s\<lparr>current_pipeline := None, json_processed := False, current_response := [],
       audio := (audio s)\<lparr>queued_audio := []\<rparr>\<rparr>"

text \<open>\<open>_handle_speech_ended\<close>.\<close>

definition handle_speech_ended ::
  "('w, 's) externals \<Rightarrow> ('w, 's) interaction_manager \<Rightarrow> ('w, 's) interaction_manager option"
where
  "handle_speech_ended ext s =
     (case play_queued ext s of
        None \<Rightarrow> None
      | Some s1 \<Rightarrow>
         (let s2 = s1\<lparr>speech_ended_event := True\<rparr>;
              s3 = (if \<not> json_processed s2
                    then parse_accumulated_response ext (s2\<lparr>messages := messages_tentative s2\<rparr>)
                    else s2)
          in Some (s3\<lparr>json_processed := False, current_response := []\<rparr>)))"

subsection \<open>The scans of the accumulated response\<close>

text \<open>The classes \<open>\s\<close> and \<open>\w\<close> of Python's \<open>re\<close> for text patterns, on code points below
  256.\<close>

definition is_space :: "char \<Rightarrow> bool" where
  "is_space c = (let n = (of_char c :: nat) in
     (9 \<le> n \<and> n \<le> 13) \<or> (28 \<le> n \<and> n \<le> 32) \<or> n = 133 \<or> n = 160)"

definition is_word :: "char \<Rightarrow> bool" where
  "is_word c = (let n = (of_char c :: nat) in
     (48 \<le> n \<and> n \<le> 57) \<or> (65 \<le> n \<and> n \<le> 90) \<or> n = 95 \<or> (97 \<le> n \<and> n \<le> 122)
     \<or> n = 170 \<or> n = 178 \<or> n = 179 \<or> n = 181 \<or> n = 185 \<or> n = 186
     \<or> (188 \<le> n \<and> n \<le> 190) \<or> (192 \<le> n \<and> n \<le> 214) \<or> (216 \<le> n \<and> n \<le> 246)
     \<or> 248 \<le> n)"

text \<open>A literal at the start of the text; the result is the rest of the text.\<close>

fun match_literal :: "string \<Rightarrow> string \<Rightarrow> string option" where
  "match_literal [] s = Some s"
| "match_literal (p # ps) [] = None"
| "match_literal (p # ps) (c # cs) = (if p = c then match_literal ps cs else None)"

text \<open>
  The common prefix of both patterns at the start of the text:
  \<^verbatim>\<open>"outputs"\s*:\s*{\s*"\<close>. Each \<open>\s*\<close> is followed by a character that is not white
  space, so the longest run of white space is the only one that can match.
\<close>

definition match_outputs_open :: "string \<Rightarrow> string option" where
  \<open>match_outputs_open s =
     (case match_literal ''"outputs"'' s of
        None \<Rightarrow> None
      | Some r1 \<Rightarrow>
         (case match_literal '':'' (dropWhile is_space r1) of
            None \<Rightarrow> None
          | Some r2 \<Rightarrow>
             (case match_literal ''{'' (dropWhile is_space r2) of
                None \<Rightarrow> None
              | Some r3 \<Rightarrow> match_literal ''"'' (dropWhile is_space r3))))\<close>

text \<open>\<^verbatim>\<open>"outputs"\s*:\s*{\s*"(\w+)"\<close> at the start of the text; the result is group 1.\<close>

definition match_response_type :: "string \<Rightarrow> string option" where
  \<open>match_response_type s =
     (case match_outputs_open s of
        None \<Rightarrow> None
      | Some r \<Rightarrow>
         (if takeWhile is_word r \<noteq> [] \<and> match_literal ''"'' (dropWhile is_word r) \<noteq> None
          then Some (takeWhile is_word r) else None))\<close>

text \<open>\<^verbatim>\<open>"outputs"\s*:\s*{\s*"assistant_response"\s*:\s*"\<close> at the start of the text.\<close>

definition match_response_start :: "string \<Rightarrow> unit option" where
  \<open>match_response_start s =
     (case match_outputs_open s of
        None \<Rightarrow> None
      | Some r \<Rightarrow>
         (case match_literal ''assistant_response"'' r of
            None \<Rightarrow> None
          | Some r1 \<Rightarrow>
             (case match_literal '':'' (dropWhile is_space r1) of
                None \<Rightarrow> None
              | Some r2 \<Rightarrow> map_option (\<lambda>_. ()) (match_literal ''"'' (dropWhile is_space r2)))))\<close>

text \<open>\<open>re.search\<close>: the match at the leftmost position where there is one.\<close>

fun re_search :: "(string \<Rightarrow> 'a option) \<Rightarrow> string \<Rightarrow> 'a option" where
  "re_search m [] = m []"
| "re_search m (c # cs) = (case m (c # cs) of Some x \<Rightarrow> Some x | None \<Rightarrow> re_search m cs)"

text \<open>\<open>sentences[i]\<close>: an index from 0 up to the length reads from the front, one from
  -1 down to minus the length reads from the back, and any other raises \<open>IndexError\<close>
  (\<open>None\<close> here).\<close>

definition py_get :: "'a list \<Rightarrow> int \<Rightarrow> 'a option" where
  "py_get xs i =
     (if 0 \<le> i \<and> i < int (length xs) then Some (xs ! nat i)
      else if i < 0 \<and> - int (length xs) \<le> i then Some (xs ! nat (int (length xs) + i))
      else None)"

subsection \<open>Assembly of the streamed response (\<open>_handle_transcription\<close>)\<close>

text \<open>
  The local variables of the loop. \<open>response_type\<close> is \<open>None\<close> until
  \<open>response_type_known\<close> is set.
\<close>

record stream_vars =
  accumulated_response :: string
  accumulated_assistant_response :: string
  response_type :: "string option"
  assistant_response_start_reached :: bool
  assistant_response_end_reached :: bool
  n_identified_sentences :: nat

definition initial_vars :: stream_vars where
  "initial_vars = \<lparr>accumulated_response = [], accumulated_assistant_response = [],
     response_type = None, assistant_response_start_reached = False,
     assistant_response_end_reached = False, n_identified_sentences = 1\<rparr>"

text \<open>
  One item of the response stream (its first choice's \<open>delta.content\<close>), with the values
  of the recording manager's \<open>pipeline_state\<close> that the loop reads while it handles the
  item: at the check that opens the iteration, and after a sentence has been queued. The
  capture thread writes that attribute while the loop runs, so the values read are inputs
  of the model.
\<close>

record llm_chunk =
  state_at_check :: "pipeline_tag option"
  delta :: "string option"
  state_at_dispatch :: "pipeline_tag option"

text \<open>A stream that cannot be created, or its items and whether the iteration ends
  normally after them (rather than by an exception).\<close>

datatype llm_response = CreateRaises | Stream "llm_chunk list" bool

datatype ('w, 's) step_result =
    Continue stream_vars "('w, 's) interaction_manager"
  | Fail "('w, 's) interaction_manager"
  | Stuck

text \<open>Synthesis of one sentence, queueing of the audio, and the flush if the pipeline is
  seen confirmed.\<close>

definition dispatch ::
  "('w, 's) externals \<Rightarrow> string \<Rightarrow> pipeline_tag option \<Rightarrow> ('w, 's) interaction_manager
     \<Rightarrow> ('w, 's) interaction_manager option"
where
  "dispatch ext sentence st s =
     (let s1 = s\<lparr>tts_calls := tts_calls s @ [sentence],
                 audio := queue_audio (process_tts ext sentence) (audio s)\<rparr>
      in if st = Some PS_confirmed then play_queued ext s1 else Some s1)"

text \<open>The body of the loop after the validity check.\<close>

definition process_chunk ::
  "('w, 's) externals \<Rightarrow> llm_chunk \<Rightarrow> stream_vars \<Rightarrow> ('w, 's) interaction_manager
     \<Rightarrow> ('w, 's) step_result"
where
  \<open>process_chunk ext c v s =
     (case delta c of
        None \<Rightarrow> Continue v s
      | Some piece \<Rightarrow>
         (let v1 = v\<lparr>accumulated_response := accumulated_response v @ piece\<rparr> in
          case response_type v1 of
            None \<Rightarrow>
              Continue (v1\<lparr>response_type :=
                            re_search match_response_type (accumulated_response v1)\<rparr>) s
          | Some ty \<Rightarrow>
              if ty = ''assistant_response'' then
                if \<not> assistant_response_start_reached v1 then
                  (if re_search match_response_start (accumulated_response v1) \<noteq> None
                   then Continue (v1\<lparr>assistant_response_start_reached := True\<rparr>) s
                   else Continue v1 s)
                else if \<not> assistant_response_end_reached v1 then
                  (let v2 = v1\<lparr>accumulated_assistant_response :=
                                   accumulated_assistant_response v1 @ piece\<rparr> in
                   if CHR 0x22 \<in> set (accumulated_assistant_response v2) then
                     (let v3 = v2\<lparr>assistant_response_end_reached := True\<rparr>;
                          sentences = sent_tokenize ext (accumulated_assistant_response v3)
                      in case py_get sentences (int (n_identified_sentences v3) - 1) of
                           None \<Rightarrow> Fail s
                         | Some sentence \<Rightarrow>
                            (case dispatch ext sentence (state_at_dispatch c) s of
                               None \<Rightarrow> Stuck
                             | Some s' \<Rightarrow> Continue v3 s'))
                   else
                     (let sentences = sent_tokenize ext (accumulated_assistant_response v2) in
                      if length sentences > n_identified_sentences v2 then
                        (case py_get sentences (int (n_identified_sentences v2) - 1) of
                           None \<Rightarrow> Fail s
                         | Some sentence \<Rightarrow>
                            (case dispatch ext sentence (state_at_dispatch c) s of
                               None \<Rightarrow> Stuck
                             | Some s' \<Rightarrow>
                                 Continue (v2\<lparr>n_identified_sentences :=
                                                n_identified_sentences v2 + 1\<rparr>) s'))
                      else Continue v2 s))
                else Continue v1 s
              else Continue v1 s))\<close>

datatype ('w, 's) loop_result =
    Completed stream_vars "('w, 's) interaction_manager"
  | Abandoned "('w, 's) interaction_manager"
  | Failed "('w, 's) interaction_manager"
  | Hung

text \<open>The \<open>for\<close> loop over the stream: the validity check, then the body.\<close>

fun consume ::
  "('w, 's) externals \<Rightarrow> llm_chunk list \<Rightarrow> stream_vars \<Rightarrow> ('w, 's) interaction_manager
     \<Rightarrow> ('w, 's) loop_result"
where
  "consume ext [] v s = Completed v s"
| "consume ext (c # cs) v s =
     (if state_at_check c = Some PS_cancelled \<or> state_at_check c = Some PS_false
      then Abandoned s
      else (case process_chunk ext c v s of
              Continue v' s' \<Rightarrow> consume ext cs v' s'
            | Fail s' \<Rightarrow> Failed s'
            | Stuck \<Rightarrow> Hung))"

text \<open>
  One call of \<open>_handle_transcription\<close>: the transcription (the texts of its entries), the
  pipeline state read before the stream is requested, the stream, and the pipeline state
  read after the loop.
\<close>

record turn_input =
  transcription :: "string list"
  state_at_start :: "pipeline_tag option"
  llm :: llm_response
  state_at_end :: "pipeline_tag option"

text \<open>The code after the loop, for a loop that ran to the end of the stream.\<close>

definition finish_turn ::
  "('w, 's) externals \<Rightarrow> pipeline_tag option \<Rightarrow> stream_vars \<Rightarrow> ('w, 's) interaction_manager
     \<Rightarrow> ('w, 's) interaction_manager option"
where
  "finish_turn ext st v s =
     (let s1 = s\<lparr>current_response := accumulated_response v, json_processed := False\<rparr>;
          s2 = (if accumulated_assistant_response v \<noteq> []
                then s1\<lparr>messages_tentative := messages_tentative s1 @
                          [\<lparr>role = ''assistant'',
                            content = accumulated_assistant_response v\<rparr>]\<rparr>
                else s1)
      in if st = Some PS_confirmed
         then (case play_queued ext (s2\<lparr>messages := messages_tentative s2\<rparr>) of
                 None \<Rightarrow> None
               | Some s3 \<Rightarrow> Some (parse_accumulated_response ext s3))
         else Some s2)"

text \<open>\<open>_handle_transcription\<close>; \<open>None\<close> when the call never returns. Every exception
  raised inside the \<open>try\<close> block is logged by its handler, and the call returns.\<close>

definition handle_transcription ::
  "('w, 's) externals \<Rightarrow> turn_input \<Rightarrow> ('w, 's) interaction_manager
     \<Rightarrow> ('w, 's) interaction_manager option"
where
  "handle_transcription ext inp s =
     (case transcription inp of
        [] \<Rightarrow> Some s
      | text # _ \<Rightarrow>
         if state_at_start inp = Some PS_cancelled \<or> state_at_start inp = Some PS_false
         then Some s
         else
           (let s1 = s\<lparr>messages_tentative :=
                          messages s @ [\<lparr>role = ''user'', content = text\<rparr>]\<rparr>
            in case llm inp of
                 CreateRaises \<Rightarrow> Some s1
               | Stream chunks ends_normally \<Rightarrow>
                  (case consume ext chunks initial_vars s1 of
                     Abandoned s2 \<Rightarrow> Some s2
                   | Failed s2 \<Rightarrow> Some s2
                   | Hung \<Rightarrow> None
                   | Completed v s2 \<Rightarrow>
                       if ends_normally then finish_turn ext (state_at_end inp) v s2
                       else Some s2)))"

subsection \<open>Fixtures for the example turns\<close>

text \<open>
  A sentence splitter for the examples, in place of \<open>nltk.sent_tokenize\<close>: a sentence ends
  at \<open>.\<close>, \<open>?\<close> or \<open>!\<close> followed by a space, and the spaces between sentences are
  dropped. On the texts of the examples it gives the sentences that the Punkt tokenizer
  gives.
\<close>

fun split_from :: "string \<Rightarrow> string \<Rightarrow> string list" where
  "split_from cur [] = (if cur = [] then [] else [cur])"
| "split_from cur (c # cs) =
     (if cur = [] \<and> c = CHR '' '' then split_from [] cs
      else if (c = CHR ''.'' \<or> c = CHR ''?'' \<or> c = CHR ''!'')
              \<and> (case cs of [] \<Rightarrow> False | d # _ \<Rightarrow> d = CHR '' '')
           then (cur @ [c]) # split_from [] cs
           else split_from (cur @ [c]) cs)"

definition split_sentences :: "string \<Rightarrow> string list" where
  "split_sentences s = split_from [] s"

text \<open>The audio of a sentence in the examples: one chunk holding the code points of its
  text.\<close>

definition text_bytes :: "string \<Rightarrow> bytes" where
  "text_bytes s = map (\<lambda>c. of_nat (of_char c)) s"

definition example_json_loads :: "string \<Rightarrow> json option" where
  \<open>example_json_loads r =
     (if r = ''{"outputs":{"assistant_response":"Hi there. How are you?"}}''
      then Some (JObj [(''outputs'',
                  JObj [(''assistant_response'', JStr ''Hi there. How are you?'')])])
      else None)\<close>

definition example_ext :: "(test_world, nat) externals" where
  "example_ext =
     \<lparr>audio_ops = test_ops True,
      sent_tokenize = split_sentences,
      speech_request = (\<lambda>s. Some [text_bytes s]),
      greeting_request = (\<lambda>s speed. Some [text_bytes s]),
      json_loads = example_json_loads,
      import_module = (\<lambda>j. None)\<rparr>"

text \<open>A manager between turns, with one system message committed and a working output
  stream (stream 1).\<close>

definition idle_manager :: "(test_world, nat) interaction_manager" where
  "idle_manager =
     \<lparr>messages = [\<lparr>role = ''system'', content = ''Be brief.''\<rparr>],
      messages_tentative = [\<lparr>role = ''system'', content = ''Be brief.''\<rparr>],
      json_processed = False,
      current_response = [],
      current_pipeline = None,
      current_mode = None,
      response_schema = None,
      speech_ended_event = False,
      audio = \<lparr>world = \<lparr>written = [], closed = [], next_stream = 2\<rparr>,
               active_streams = [''output'' \<mapsto> 1],
               dm_input_stream = None, dm_output_stream = None,
               queued_audio = [],
               output_stream = Some 1,
               playback_complete = True\<rparr>,
      tts_calls = []\<rparr>"

text \<open>A stream item read while the pipeline state is \<open>st\<close>.\<close>

definition chunk_in :: "pipeline_tag option \<Rightarrow> string \<Rightarrow> llm_chunk" where
  "chunk_in st d = \<lparr>state_at_check = st, delta = Some d, state_at_dispatch = st\<rparr>"

definition turn_of :: "pipeline_tag option \<Rightarrow> llm_chunk list \<Rightarrow> turn_input" where
  "turn_of st chunks =
     \<lparr>transcription = [''Hello''], state_at_start = None, llm = Stream chunks True,
      state_at_end = st\<rparr>"

text \<open>The two items that open a spoken response: the first makes the response type known,
  the second brings the response_opening quote of the text.\<close>

definition response_opening :: "llm_chunk list" where
  \<open>response_opening = [chunk_in None ''{"outputs":{"assistant_response"'', chunk_in None '':"'']\<close>

text \<open>A response in which one item completes three sentences.\<close>

definition burst_stream :: "llm_chunk list" where
  \<open>burst_stream = response_opening @
     [chunk_in None ''Hello there. How are you today? I am fine. '',
      chunk_in None ''Thanks for asking."}}'']\<close>

text \<open>The stream of the scenario of the specification.\<close>

definition scenario_stream :: "llm_chunk list" where
  \<open>scenario_stream =
     [chunk_in None ''{"outputs":{"assistant_response":"Hi there. '',
      chunk_in None ''How are you?"}}'']\<close>


text \<open>A response during which the pipeline state is found \<open>'cancelled'\<close>, or \<open>'false'\<close>,
  after the first sentence was queued.\<close>

definition invalidated_stream :: "pipeline_tag \<Rightarrow> llm_chunk list" where
  \<open>invalidated_stream tag = response_opening @
     [chunk_in None ''Hello there. How are'',
      chunk_in (Some tag) '' you today? '',
      chunk_in (Some tag) ''I am fine."}}'']\<close>

text \<open>Two managers that differ at most in the audio state and in the log of synthesised
  sentences.\<close>

definition same_conversation ::
  "('w, 's) interaction_manager \<Rightarrow> ('w, 's) interaction_manager \<Rightarrow> bool"
where
  "same_conversation s s' = (s' = s\<lparr>audio := audio s', tts_calls := tts_calls s'\<rparr>)"




section \<open>Verified properties\<close>

subsection \<open>Evaluation of the example runs\<close>

lemmas eval_defs = first_turn_def second_turn_start_def default_config_def
  initial_manager_def frame_at_def process_frame_def Let_def deque_append_def
  save_speech_def find_start_idx_def find_end_idx_def reset_def backoff_def

lemma end_potential_manager_eq:
  "end_potential_manager = \<lparr>audio_buffer = [[1], [2], [3]], chunk_times = [1, 2, 3],
     vad_states = (), speech_start_time = Some 1, speech_end_time = Some 3,
     speech_start_potential = False, speech_end_potential = True,
     speech_started = True, speech_detected = True, speech_ended = False,
     latest_transcription = None, is_recording = True,
     current_pipeline_id = Some 3, pipeline_state = None,
     pipeline_processing = False\<rparr>"
  by (simp add: end_potential_manager_def eval_defs)

lemma confirmed_processing_manager_eq:
  "confirmed_processing_manager = \<lparr>audio_buffer = [[1], [2], [3], [4], [5], [6]],
     chunk_times = [1, 2, 3, 4, 5, 6], vad_states = (),
     speech_start_time = Some 5, speech_end_time = None,
     speech_start_potential = False, speech_end_potential = False,
     speech_started = True, speech_detected = True, speech_ended = False,
     latest_transcription = None, is_recording = True,
     current_pipeline_id = Some 3, pipeline_state = Some PS_confirmed,
     pipeline_processing = True\<rparr>"
  unfolding confirmed_processing_manager_def end_potential_manager_eq by (simp add: eval_defs)


lemma confirmed_end_potential_manager_eq:
  "confirmed_end_potential_manager = \<lparr>audio_buffer = [[1], [2], [3], [4], [5], [6]],
     chunk_times = [1, 2, 3, 4, 5, 6], vad_states = (),
     speech_start_time = Some 5, speech_end_time = Some 6,
     speech_start_potential = False, speech_end_potential = True,
     speech_started = True, speech_detected = True, speech_ended = False,
     latest_transcription = None, is_recording = True,
     current_pipeline_id = Some 3, pipeline_state = Some PS_confirmed,
     pipeline_processing = True\<rparr>"
  unfolding confirmed_end_potential_manager_def confirmed_processing_manager_eq by simp

subsection \<open>Pipeline identity across new utterances\<close>

text \<open>
  A new speech-start potential leaves a pipeline that is confirmed and still processing
  as it is: its id, state and processing flag are unchanged.
\<close>

lemma start_potential_keeps_confirmed_processing_pipeline:
  assumes "process_frame cfg m inp = (m', evs)" and "truthy (current_pipeline_id m)"
    and "pipeline_state m = Some PS_confirmed"
    and "pipeline_processing m" and "SPEECH_START_POTENTIAL \<in> set evs"
  shows "current_pipeline_id m' = current_pipeline_id m
    \<and> pipeline_state m' = Some PS_confirmed \<and> pipeline_processing m'"
  using assms by (auto simp: process_frame_def Let_def split: if_splits option.splits)

text \<open>
  Claim C1. At most one pipeline is current, and creating or resetting the pipeline (a new
  speech-start potential or a new speech-end potential) while the current one is confirmed
  and still processing should leave its id, state and processing flag unchanged. The
  speech-end-potential branch has no such guard. After a first utterance has been
  confirmed while its segment is being processed (pipeline id 3, confirmed, processing)
  and a second utterance has started, the end of the second utterance at 7 s replaces
  the pipeline: the id becomes 7, the state \<open>None\<close> and the processing flag is cleared.
\<close>

theorem end_potential_replaces_confirmed_processing_pipeline:
  "current_pipeline_id confirmed_processing_manager = Some 3
   \<and> pipeline_state confirmed_processing_manager = Some PS_confirmed
   \<and> pipeline_processing confirmed_processing_manager
   \<and> snd (process_frame default_config confirmed_processing_manager
             (frame_at 7 [7] (VadDict None (Some 7)))) = [SPEECH_END_POTENTIAL]
   \<and> current_pipeline_id (fst (process_frame default_config confirmed_processing_manager
             (frame_at 7 [7] (VadDict None (Some 7))))) = Some 7
   \<and> pipeline_state (fst (process_frame default_config confirmed_processing_manager
             (frame_at 7 [7] (VadDict None (Some 7))))) = None
   \<and> \<not> pipeline_processing (fst (process_frame default_config confirmed_processing_manager
             (frame_at 7 [7] (VadDict None (Some 7)))))"
  unfolding confirmed_processing_manager_eq by (simp add: eval_defs)

subsection \<open>The slice extracted by \<open>save_speech\<close>\<close>








subsection \<open>False ends and confirmed pipelines\<close>

lemma false_end_pipeline_state:
  assumes "process_frame cfg m inp = (m', evs)" and "FALSE_END \<in> set evs"
  shows "pipeline_state m' =
           (if truthy (current_pipeline_id m) \<and> pipeline_state m \<noteq> Some PS_confirmed
            then Some PS_false else pipeline_state m)"
  using assms by (auto simp: process_frame_def Let_def split: if_splits option.splits)

lemma only_false_end_sets_false:
  assumes "process_frame cfg m inp = (m', evs)" and "pipeline_state m' = Some PS_false"
    and "pipeline_state m \<noteq> Some PS_false"
  shows "evs = [FALSE_END] \<and> truthy (current_pipeline_id m)
           \<and> pipeline_state m \<noteq> Some PS_confirmed"
  using assms by (auto simp: process_frame_def Let_def split: if_splits option.splits)

lemma confirmed_step_not_false:
  assumes "process_frame cfg m inp = (m', evs)" and "pipeline_state m = Some PS_confirmed"
  shows "pipeline_state m' \<noteq> Some PS_false"
  using assms by (auto simp: process_frame_def Let_def split: if_splits option.splits)

text \<open>
  Claim C6. A false-end transition sets the pipeline state to \<open>'false'\<close> only if the
  pipeline exists and is not confirmed: on a \<open>FALSE_END\<close> event the new state is \<open>'false'\<close>
  exactly when the pipeline id is set and the state was not \<open>'confirmed'\<close>, and is the old
  state otherwise; a step that newly produces the state \<open>'false'\<close> is such a false end; and
  no step, whatever the input, turns the state \<open>'confirmed'\<close> into \<open>'false'\<close>.
\<close>

theorem false_end_respects_confirmed:
  assumes "process_frame cfg m inp = (m', evs)"
  shows "(FALSE_END \<in> set evs \<longrightarrow>
            pipeline_state m' =
              (if truthy (current_pipeline_id m) \<and> pipeline_state m \<noteq> Some PS_confirmed
               then Some PS_false else pipeline_state m))
       \<and> (pipeline_state m' = Some PS_false \<and> pipeline_state m \<noteq> Some PS_false \<longrightarrow>
            evs = [FALSE_END] \<and> truthy (current_pipeline_id m)
            \<and> pipeline_state m \<noteq> Some PS_confirmed)
       \<and> (pipeline_state m = Some PS_confirmed \<longrightarrow> pipeline_state m' \<noteq> Some PS_false)"
  using false_end_pipeline_state[OF assms] only_false_end_sets_false[OF assms]
    confirmed_step_not_false[OF assms] by blast

lemma false_end_on_confirmed_eval:
  "process_frame default_config confirmed_end_potential_manager
        (frame_at 7 [7] (VadDict (Some 7) None))
   = (\<lparr>audio_buffer = [[1], [2], [3], [4], [5], [6], [7]],
     chunk_times = [1, 2, 3, 4, 5, 6, 7], vad_states = (),
     speech_start_time = Some 5, speech_end_time = None,
     speech_start_potential = False, speech_end_potential = False,
     speech_started = True, speech_detected = True, speech_ended = False,
     latest_transcription = None, is_recording = True,
     current_pipeline_id = Some 3, pipeline_state = Some PS_confirmed,
     pipeline_processing = True\<rparr>, [FALSE_END])"
  unfolding confirmed_end_potential_manager_eq by (simp add: eval_defs)

lemma false_end_on_pending_eval:
  "process_frame default_config end_potential_manager (frame_at 4 [4] (VadDict (Some 4) None))
   = (\<lparr>audio_buffer = [[1], [2], [3], [4]], chunk_times = [1, 2, 3, 4],
     vad_states = (), speech_start_time = Some 1, speech_end_time = None,
     speech_start_potential = False, speech_end_potential = False,
     speech_started = True, speech_detected = True, speech_ended = False,
     latest_transcription = None, is_recording = True,
     current_pipeline_id = Some 3, pipeline_state = Some PS_false,
     pipeline_processing = False\<rparr>, [FALSE_END])"
  unfolding end_potential_manager_eq by (simp add: eval_defs)

theorem false_end_respects_confirmed_witness:
  "pipeline_state confirmed_end_potential_manager = Some PS_confirmed
   \<and> snd (process_frame default_config confirmed_end_potential_manager
        (frame_at 7 [7] (VadDict (Some 7) None))) = [FALSE_END]
   \<and> pipeline_state (fst (process_frame default_config confirmed_end_potential_manager
        (frame_at 7 [7] (VadDict (Some 7) None)))) = Some PS_confirmed
   \<and> pipeline_state end_potential_manager = None
   \<and> truthy (current_pipeline_id end_potential_manager)
   \<and> snd (process_frame default_config end_potential_manager
        (frame_at 4 [4] (VadDict (Some 4) None))) = [FALSE_END]
   \<and> pipeline_state (fst (process_frame default_config end_potential_manager
        (frame_at 4 [4] (VadDict (Some 4) None)))) = Some PS_false"
  using false_end_respects_confirmed [OF false_end_on_confirmed_eval]
    false_end_respects_confirmed [OF false_end_on_pending_eval]
  unfolding false_end_on_confirmed_eval false_end_on_pending_eval
  by (simp add: confirmed_end_potential_manager_eq end_potential_manager_eq)

text \<open>
  Over whole runs of the capture loop interleaved with \<open>save_speech\<close> and \<open>reset\<close>: from a
  confirmed pipeline the state \<open>'false'\<close> is reached only after a new pipeline has been
  created by a \<open>SPEECH_END_POTENTIAL\<close>.
\<close>

lemma process_frame_confirmed_or_cleared:
  assumes "process_frame cfg m inp = (m', evs)"
    and "pipeline_state m = Some PS_confirmed
         \<or> (pipeline_state m = None \<and> current_pipeline_id m = None)"
    and "SPEECH_END_POTENTIAL \<notin> set evs"
  shows "pipeline_state m' = Some PS_confirmed
         \<or> (pipeline_state m' = None \<and> current_pipeline_id m' = None)"
  using assms by (auto simp: process_frame_def Let_def split: if_splits option.splits)

lemma fst_save_speech:
  "fst (save_speech cfg now m) =
     (if truthy (current_pipeline_id m) then m\<lparr>pipeline_processing := True\<rparr> else m)"
  by (simp add: save_speech_def Let_def split: sum.splits)

lemma apply_action_confirmed_or_cleared:
  assumes "apply_action cfg rs m a = (m', evs)"
    and "pipeline_state m = Some PS_confirmed
         \<or> (pipeline_state m = None \<and> current_pipeline_id m = None)"
    and "SPEECH_END_POTENTIAL \<notin> set evs"
  shows "pipeline_state m' = Some PS_confirmed
         \<or> (pipeline_state m' = None \<and> current_pipeline_id m' = None)"
proof (cases a)
  case (Frame inp)
  with assms show ?thesis
    using process_frame_confirmed_or_cleared[of cfg m inp m' evs] by simp
next
  case (SaveSpeech now)
  with assms show ?thesis by (auto simp: fst_save_speech split: if_splits)
next
  case Reset
  with assms show ?thesis by (auto simp: reset_def)
qed

lemma run_confirmed_or_cleared:
  assumes "run cfg rs m acts = (m', evs)"
    and "pipeline_state m = Some PS_confirmed
         \<or> (pipeline_state m = None \<and> current_pipeline_id m = None)"
    and "SPEECH_END_POTENTIAL \<notin> set evs"
  shows "pipeline_state m' = Some PS_confirmed
         \<or> (pipeline_state m' = None \<and> current_pipeline_id m' = None)"
  using assms
proof (induction acts arbitrary: m m' evs)
  case Nil
  then show ?case by simp
next
  case (Cons a acts)
  obtain m1 e1 where s1: "apply_action cfg rs m a = (m1, e1)"
    by (cases "apply_action cfg rs m a")
  obtain m2 e2 where s2: "run cfg rs m1 acts = (m2, e2)"
    by (cases "run cfg rs m1 acts")
  from Cons.prems(1) s1 s2 have eq: "m' = m2" "evs = e1 @ e2" by simp_all
  with Cons.prems(3) have n1: "SPEECH_END_POTENTIAL \<notin> set e1"
    and n2: "SPEECH_END_POTENTIAL \<notin> set e2" by auto
  from apply_action_confirmed_or_cleared[OF s1 Cons.prems(2) n1] Cons.IH[OF s2 _ n2] eq
  show ?case by simp
qed

lemma run_confirmed_not_false:
  assumes "run cfg rs m acts = (m', evs)" and "pipeline_state m = Some PS_confirmed"
    and "SPEECH_END_POTENTIAL \<notin> set evs"
  shows "pipeline_state m' \<noteq> Some PS_false"
  using run_confirmed_or_cleared[OF assms(1) _ assms(3)] assms(2) by auto

subsection \<open>False starts\<close>

text \<open>
  Claim C8. From any state in which no speech segment has started, a frame classified as
  a start followed immediately by a frame classified as an end emits
  \<open>SPEECH_START_POTENTIAL\<close> and then \<open>FALSE_START\<close>: exactly one \<open>FALSE_START\<close>, no
  \<open>SPEECH_STARTED\<close>, and afterwards the start-potential flag and the start time are
  cleared. This holds whatever the time between the two frames.
\<close>

theorem start_then_end_false_start:
  assumes "\<not> speech_started m" and "has_start (vad i1)" and "vad i2 = VadDict None (Some e)"
    and "run cfg rs m [Frame i1, Frame i2] = (m', evs)"
  shows "evs = [SPEECH_START_POTENTIAL, FALSE_START]
    \<and> count_list evs FALSE_START = 1 \<and> count_list evs SPEECH_STARTED = 0
    \<and> \<not> speech_start_potential m' \<and> speech_start_time m' = None \<and> \<not> speech_started m'"
  using assms by (auto simp: process_frame_def Let_def split: if_splits option.splits prod.splits)

lemma false_start_run_eval:
  "run default_config id initial_manager
        [Frame (frame_at 1 [1] (VadDict (Some 1) None)),
         Frame (frame_at (6 / 5) [2] (VadDict None (Some (6 / 5))))]
   = (\<lparr>audio_buffer = [[1], [2]], chunk_times = [1, 6 / 5], vad_states = (),
     speech_start_time = None, speech_end_time = None,
     speech_start_potential = False, speech_end_potential = False,
     speech_started = False, speech_detected = False, speech_ended = False,
     latest_transcription = None, is_recording = True,
     current_pipeline_id = None, pipeline_state = None, pipeline_processing = False\<rparr>,
     [SPEECH_START_POTENTIAL, FALSE_START])"
  by (simp add: eval_defs)

theorem start_then_end_false_start_witness:
  "\<not> speech_started initial_manager
   \<and> has_start (vad (frame_at 1 [1] (VadDict (Some 1) None)))
   \<and> vad (frame_at (6 / 5) [2] (VadDict None (Some (6 / 5)))) = VadDict None (Some (6 / 5))
   \<and> snd (run default_config id initial_manager
        [Frame (frame_at 1 [1] (VadDict (Some 1) None)),
         Frame (frame_at (6 / 5) [2] (VadDict None (Some (6 / 5))))])
      = [SPEECH_START_POTENTIAL, FALSE_START]
   \<and> speech_start_time (fst (run default_config id initial_manager
        [Frame (frame_at 1 [1] (VadDict (Some 1) None)),
         Frame (frame_at (6 / 5) [2] (VadDict None (Some (6 / 5))))])) = None"
proof -
  have h1: "\<not> speech_started initial_manager" by (simp add: initial_manager_def)
  have h2: "has_start (vad (frame_at 1 [1] (VadDict (Some 1) None)))"
    by (simp add: frame_at_def)
  have h3: "vad (frame_at (6 / 5) [2] (VadDict None (Some (6 / 5)))) = VadDict None (Some (6 / 5))"
    by (simp add: frame_at_def)
  from start_then_end_false_start [OF h1 h2 h3 false_start_run_eval] h1 h2 h3
  show ?thesis unfolding false_start_run_eval by simp
qed

subsection \<open>Frame of \<open>reset\<close>\<close>

text \<open>
  Claim C10. \<open>reset\<close> changes the seven speech-tracking fields (and resets the external VAD
  iterator) and nothing else: putting the old values of these fields back gives the manager
  as it was. The seven fields are cleared; the audio buffer, the chunk timestamps, the
  latest transcription and the three pipeline fields are as before the call.
\<close>

theorem reset_frame:
  "(reset rs m)\<lparr>vad_states := vad_states m,
       speech_start_time := speech_start_time m,
       speech_end_time := speech_end_time m,
       speech_start_potential := speech_start_potential m,
       speech_end_potential := speech_end_potential m,
       speech_started := speech_started m,
       speech_detected := speech_detected m,
       speech_ended := speech_ended m\<rparr> = m
   \<and> speech_start_time (reset rs m) = None \<and> speech_end_time (reset rs m) = None
   \<and> \<not> speech_start_potential (reset rs m) \<and> \<not> speech_end_potential (reset rs m)
   \<and> \<not> speech_started (reset rs m) \<and> \<not> speech_detected (reset rs m)
   \<and> \<not> speech_ended (reset rs m)
   \<and> audio_buffer (reset rs m) = audio_buffer m
   \<and> chunk_times (reset rs m) = chunk_times m
   \<and> latest_transcription (reset rs m) = latest_transcription m
   \<and> is_recording (reset rs m) = is_recording m
   \<and> current_pipeline_id (reset rs m) = current_pipeline_id m
   \<and> pipeline_state (reset rs m) = pipeline_state m
   \<and> pipeline_processing (reset rs m) = pipeline_processing m"
  by (simp add: reset_def)

subsection \<open>Errors during playback\<close>

lemma close_stream_ok:
  assumes "\<forall>st w. fst (pa_stop_stream ops st w) \<and> fst (pa_close ops st w)"
  shows "\<exists>a2. close_stream ops ''output'' a1 = (True, a2)
     \<and> active_streams a2 ''output'' = None
     \<and> queued_audio a2 = queued_audio a1
     \<and> world a2 = (case active_streams a1 ''output'' of None \<Rightarrow> world a1
          | Some st \<Rightarrow> snd (pa_close ops st (snd (pa_stop_stream ops st (world a1)))))"
proof (cases "active_streams a1 ''output''")
  case None
  then show ?thesis by (simp add: close_stream_def)
next
  case (Some st)
  obtain b1 w1 where s1: "pa_stop_stream ops st (world a1) = (b1, w1)"
    by (cases "pa_stop_stream ops st (world a1)")
  obtain b2 w2 where s2: "pa_close ops st w1 = (b2, w2)" by (cases "pa_close ops st w1")
  from assms have "fst (pa_stop_stream ops st (world a1))" by blast
  with s1 have b1: "b1" by simp
  from assms have "fst (pa_close ops st w1)" by blast
  with s2 have b2: "b2" by simp
  show ?thesis using Some s1 s2 b1 b2 by (simp add: close_stream_def Let_def)
qed

lemma ensure_when_cleared:
  "output_stream a = None \<Longrightarrow>
     fst (ensure_output_stream ops a) = fst (pa_open ops (world a))"
  by (simp add: ensure_output_stream_def create_output_stream_def
      split: prod.splits option.splits)

lemmas audio_eval = test_ops_def broken_sink_state_def play_queued_audio_def
  play_audio_now_def try_play_def ensure_output_stream_def create_output_stream_def
  close_stream_def Let_def

text \<open>
  Claim C9, as stated: whenever playing a queued entry raises, the error does not leave
  \<open>play_audio_now\<close> and the flush goes on with the next entries. The handler of
  \<open>play_audio_now\<close> closes the stream through \<open>close_stream\<close>, whose \<open>stop_stream\<close> and
  \<open>close\<close> calls are not protected. On a device where writing raises and stopping the
  stream raises as well, \<open>play_audio_now\<close> raises, \<open>play_queued_audio\<close> raises with it,
  the second entry is not played, the queue is not emptied and the stream reference is
  kept.
\<close>

theorem teardown_error_propagates_counterexample:
  "fst (try_play (test_ops False) (Some [1, 2])
          (broken_sink_state\<lparr>playback_complete := False\<rparr>)) = False
   \<and> did_raise (play_audio_now (test_ops False) (Some [1, 2]) broken_sink_state)
   \<and> did_raise (play_queued_audio (test_ops False) broken_sink_state)
   \<and> map_option output_stream
        (state_after (play_queued_audio (test_ops False) broken_sink_state)) = Some (Some 0)
   \<and> map_option queued_audio
        (state_after (play_queued_audio (test_ops False) broken_sink_state))
       = Some [Some [1, 2], Some [3]]
   \<and> map_option (written \<circ> world)
        (state_after (play_queued_audio (test_ops False) broken_sink_state)) = Some []"
  by (simp add: audio_eval)

text \<open>
  Claim C9, amended. When the \<open>try\<close> block of \<open>play_audio_now\<close> raises (while obtaining
  the stream or writing to it) and \<open>stop_stream\<close> and \<open>close\<close> do not raise, then
  \<open>play_audio_now\<close> returns normally with the stream reference cleared and the
  playback-complete event set; if a stream reference was held, the stream registered as
  the active output has been stopped and closed and is no longer registered; the next
  \<open>_ensure_output_stream\<close> opens a new stream; and the loop of \<open>play_queued_audio\<close> goes on
  with the entries that follow.
\<close>

theorem playback_error_tears_down_sink:
  assumes "playback_complete a"
    and "try_play ops x (a\<lparr>playback_complete := False\<rparr>) = (False, a1)"
    and "\<forall>st w. fst (pa_stop_stream ops st w) \<and> fst (pa_close ops st w)"
  shows "\<exists>a'. play_audio_now ops x a = Returned a'
     \<and> output_stream a' = None \<and> playback_complete a'
     \<and> (if output_stream a1 = None then world a' = world a1
         else active_streams a' ''output'' = None
            \<and> world a' = (case active_streams a1 ''output'' of None \<Rightarrow> world a1
                 | Some st \<Rightarrow> snd (pa_close ops st (snd (pa_stop_stream ops st (world a1))))))
     \<and> queued_audio a' = queued_audio a1
     \<and> fst (ensure_output_stream ops a') = fst (pa_open ops (world a'))
     \<and> play_entries ops (x # xs) a = play_entries ops xs a'"
proof (cases "output_stream a1")
  case None
  let ?a' = "a1\<lparr>playback_complete := True\<rparr>"
  have p: "play_audio_now ops x a = Returned ?a'"
    using assms(1,2) None by (simp add: play_audio_now_def)
  moreover have "fst (ensure_output_stream ops ?a') = fst (pa_open ops (world ?a'))"
    using None by (intro ensure_when_cleared) simp
  ultimately show ?thesis using None by (intro exI[of _ ?a']) simp
next
  case (Some st)
  from close_stream_ok[OF assms(3), of a1] obtain a2 where
    c: "close_stream ops ''output'' a1 = (True, a2)" "active_streams a2 ''output'' = None"
       "queued_audio a2 = queued_audio a1"
       "world a2 = (case active_streams a1 ''output'' of None \<Rightarrow> world a1
          | Some st \<Rightarrow> snd (pa_close ops st (snd (pa_stop_stream ops st (world a1)))))"
    by blast
  let ?a' = "a2\<lparr>output_stream := None, playback_complete := True\<rparr>"
  have p: "play_audio_now ops x a = Returned ?a'"
    using assms(1,2) Some c(1) by (simp add: play_audio_now_def)
  moreover have "fst (ensure_output_stream ops ?a') = fst (pa_open ops (world ?a'))"
    by (intro ensure_when_cleared) simp
  ultimately show ?thesis using Some c(2,3,4) by (intro exI[of _ ?a']) simp
qed

lemma try_play_broken_eval:
  "try_play (test_ops True) (Some [1, 2]) (broken_sink_state\<lparr>playback_complete := False\<rparr>)
     = (False, broken_sink_state\<lparr>playback_complete := False\<rparr>)"
  by (simp add: audio_eval)

theorem playback_error_tears_down_sink_witness:
  "playback_complete broken_sink_state
   \<and> try_play (test_ops True) (Some [1, 2]) (broken_sink_state\<lparr>playback_complete := False\<rparr>)
        = (False, broken_sink_state\<lparr>playback_complete := False\<rparr>)
   \<and> (\<forall>st w. fst (pa_stop_stream (test_ops True) st w) \<and> fst (pa_close (test_ops True) st w))
   \<and> (\<exists>a'. play_audio_now (test_ops True) (Some [1, 2]) broken_sink_state = Returned a'
        \<and> output_stream a' = None \<and> playback_complete a'
        \<and> active_streams a' ''output'' = None
        \<and> closed (world a') = [0]
        \<and> play_entries (test_ops True) [Some [1, 2], Some [3]] broken_sink_state
            = play_entries (test_ops True) [Some [3]] a')
   \<and> map_option (written \<circ> world)
        (state_after (play_queued_audio (test_ops True) broken_sink_state)) = Some [(1, [3])]
   \<and> map_option queued_audio
        (state_after (play_queued_audio (test_ops True) broken_sink_state)) = Some []"
proof -
  have h1: "playback_complete broken_sink_state" by (simp add: broken_sink_state_def)
  have h3: "\<forall>st w. fst (pa_stop_stream (test_ops True) st w)
      \<and> fst (pa_close (test_ops True) st w)"
    by (simp add: test_ops_def)
  from playback_error_tears_down_sink [OF h1 try_play_broken_eval h3, of "[Some [3]]"]
  obtain a' where a':
    "play_audio_now (test_ops True) (Some [1, 2]) broken_sink_state = Returned a'"
    "output_stream a' = None" "playback_complete a'"
    "play_entries (test_ops True) [Some [1, 2], Some [3]] broken_sink_state
            = play_entries (test_ops True) [Some [3]] a'"
    by blast
  have ev: "play_audio_now (test_ops True) (Some [1, 2]) broken_sink_state
     = Returned (broken_sink_state\<lparr>world := \<lparr>written = [], closed = [0], next_stream = 1\<rparr>,
          active_streams := ([''output'' \<mapsto> 0])(''output'' := None), dm_output_stream := None,
          output_stream := None, playback_complete := True\<rparr>)"
    by (simp add: audio_eval)
  from a'(1) ev have "active_streams a' ''output'' = None \<and> closed (world a') = [0]" by auto
  moreover have "map_option (written \<circ> world)
        (state_after (play_queued_audio (test_ops True) broken_sink_state)) = Some [(1, [3])]
   \<and> map_option queued_audio
        (state_after (play_queued_audio (test_ops True) broken_sink_state)) = Some []"
    by (simp add: audio_eval)
  ultimately show ?thesis using h1 h3 try_play_broken_eval a' by blast
qed

subsection \<open>Sentence dispatch during stream assembly\<close>

text \<open>
  Claim C4. On every growth of the response text every newly completed sentence, except
  the trailing one, should be synthesised and queued in that step, and the trailing
  sentence when the stream ends. The loop dispatches at most one sentence per item,
  \<open>sentences[n_identified_sentences - 1]\<close>. When one item completes three sentences
  (\<open>burst_stream\<close>), only the first is dispatched at that item, and the item that closes
  the response dispatches the second as the "final sentence": the third sentence and the
  trailing one are never dispatched.
\<close>

theorem one_dispatch_per_delta:
  \<open>split_sentences ''Hello there. How are you today? I am fine. ''
      = [''Hello there.'', ''How are you today?'', ''I am fine.'']
   \<and> map_option tts_calls
        (handle_transcription example_ext (turn_of None (take 3 burst_stream)) idle_manager)
      = Some [''Hello there.'']
   \<and> map_option tts_calls
        (handle_transcription example_ext (turn_of None burst_stream) idle_manager)
      = Some [''Hello there.'', ''How are you today?'']\<close>
  by code_simp

text \<open>
  Claim C2. The sentences sent to text-to-speech should at every point be a prefix of the
  tokenization of the complete response text, and all of its sentences should have been
  dispatched once the stream has ended. For \<open>burst_stream\<close> the complete accumulated
  response text has four sentences and two have been dispatched when the stream ends.
\<close>

theorem dispatched_sentences_incomplete:
  \<open>map_option tts_calls
        (handle_transcription example_ext (turn_of None burst_stream) idle_manager)
      = Some [''Hello there.'', ''How are you today?'']
   \<and> map_option (sent_tokenize example_ext \<circ> content \<circ> last \<circ> messages_tentative)
        (handle_transcription example_ext (turn_of None burst_stream) idle_manager)
      = Some [''Hello there.'', ''How are you today?'', ''I am fine.'',
              ''Thanks for asking."}}'']\<close>
  by code_simp

text \<open>
  The scenario of the specification (the response text arrives in two items, the first
  of which also carries the field name and the opening quote): the first item only makes
  the response type known and the second only marks the start of the text, so nothing is
  added to the accumulated assistant response and no sentence is dispatched.
\<close>

lemma scenario_dispatches_nothing:
  \<open>map_option tts_calls
        (handle_transcription example_ext (turn_of None scenario_stream) idle_manager)
      = Some []
   \<and> map_option messages_tentative
        (handle_transcription example_ext (turn_of None scenario_stream) idle_manager)
      = Some [\<lparr>role = ''system'', content = ''Be brief.''\<rparr>,
              \<lparr>role = ''user'', content = ''Hello''\<rparr>]\<close>
  by code_simp

subsection \<open>Playback never waits between calls\<close>

lemma play_audio_now_complete:
  assumes "playback_complete a"
  shows "\<exists>a'. state_after (play_audio_now ops x a) = Some a' \<and> playback_complete a'"
  using assms
  by (auto simp: play_audio_now_def split: prod.splits bool.splits option.splits)

lemma play_entries_complete:
  assumes "playback_complete a"
  shows "\<exists>a'. state_after (play_entries ops xs a) = Some a' \<and> playback_complete a'"
  using assms
proof (induction xs arbitrary: a)
  case Nil
  then show ?case by simp
next
  case (Cons x xs)
  from play_audio_now_complete[OF Cons.prems, of ops x]
  obtain a1 where a1: "state_after (play_audio_now ops x a) = Some a1" "playback_complete a1"
    by blast
  show ?case
  proof (cases "play_audio_now ops x a")
    case (Returned b)
    with a1 have "b = a1" by simp
    with Returned Cons.IH[OF a1(2)] show ?thesis by simp
  next
    case (Raised b)
    with a1 show ?thesis by simp
  next
    case Blocked
    with a1 show ?thesis by simp
  qed
qed

lemma play_queued_complete:
  assumes "playback_complete (audio s)"
  shows "\<exists>s'. play_queued ext s = Some s' \<and> same_conversation s s'
           \<and> tts_calls s' = tts_calls s \<and> playback_complete (audio s')"
proof -
  from play_entries_complete[OF assms, of "audio_ops ext" "queued_audio (audio s)"]
  obtain a' where a': "state_after (play_entries (audio_ops ext) (queued_audio (audio s)) (audio s)) = Some a'"
    "playback_complete a'" by blast
  show ?thesis
  proof (cases "play_entries (audio_ops ext) (queued_audio (audio s)) (audio s)")
    case (Returned b)
    with a' show ?thesis
      by (simp add: play_queued_def play_queued_audio_def same_conversation_def)
  next
    case (Raised b)
    with a' show ?thesis
      by (simp add: play_queued_def play_queued_audio_def same_conversation_def)
  next
    case Blocked
    with a' show ?thesis by simp
  qed
qed

lemma play_queued_empty:
  assumes "queued_audio (audio s) = []"
  shows "play_queued ext s = Some s"
  using assms by (simp add: play_queued_def play_queued_audio_def)

lemma same_conversation_refl: "same_conversation s s"
  by (simp add: same_conversation_def)

lemma same_conversation_trans:
  "same_conversation s s1 \<Longrightarrow> same_conversation s1 s2 \<Longrightarrow> same_conversation s s2"
  unfolding same_conversation_def by (metis (no_types, lifting) interaction_manager.surjective interaction_manager.update_convs(9,10) interaction_manager.select_convs)

lemma same_conversation_fields:
  assumes "same_conversation s s'"
  shows "messages s' = messages s" "messages_tentative s' = messages_tentative s"
    "json_processed s' = json_processed s" "current_response s' = current_response s"
    "current_mode s' = current_mode s" "current_pipeline s' = current_pipeline s"
    "response_schema s' = response_schema s" "speech_ended_event s' = speech_ended_event s"
proof -
  from assms have e: "s' = s\<lparr>audio := audio s', tts_calls := tts_calls s'\<rparr>"
    by (simp add: same_conversation_def)
  show "messages s' = messages s" by (subst e) simp
  show "messages_tentative s' = messages_tentative s" by (subst e) simp
  show "json_processed s' = json_processed s" by (subst e) simp
  show "current_response s' = current_response s" by (subst e) simp
  show "current_mode s' = current_mode s" by (subst e) simp
  show "current_pipeline s' = current_pipeline s" by (subst e) simp
  show "response_schema s' = response_schema s" by (subst e) simp
  show "speech_ended_event s' = speech_ended_event s" by (subst e) simp
qed

lemma dispatch_complete:
  assumes "playback_complete (audio s)"
  shows "\<exists>s'. dispatch ext sentence st s = Some s' \<and> same_conversation s s'
           \<and> playback_complete (audio s')"
proof -
  let ?s1 = "s\<lparr>tts_calls := tts_calls s @ [sentence],
                 audio := queue_audio (process_tts ext sentence) (audio s)\<rparr>"
  have sc: "same_conversation s ?s1" by (simp add: same_conversation_def)
  have pc: "playback_complete (audio ?s1)" using assms by (simp add: queue_audio_def)
  show ?thesis
  proof (cases "st = Some PS_confirmed")
    case True
    from play_queued_complete[OF pc, of ext] obtain s' where
      s': "play_queued ext ?s1 = Some s'" "same_conversation ?s1 s'"
      "playback_complete (audio s')" by blast
    from same_conversation_trans[OF sc s'(2)] s'(1,3) True show ?thesis
      by (simp add: dispatch_def Let_def)
  next
    case False
    with sc pc show ?thesis by (simp add: dispatch_def Let_def)
  qed
qed

lemma process_chunk_complete:
  assumes "playback_complete (audio s)"
  shows "(\<exists>v' s'. process_chunk ext c v s = Continue v' s' \<and> same_conversation s s'
            \<and> playback_complete (audio s'))
         \<or> process_chunk ext c v s = Fail s"
proof -
  have "\<forall>sentence. \<exists>s'. dispatch ext sentence (state_at_dispatch c) s = Some s'
      \<and> same_conversation s s' \<and> playback_complete (audio s')"
    using dispatch_complete[OF assms] by blast
  then obtain f where f: "\<And>sentence. dispatch ext sentence (state_at_dispatch c) s
        = Some (f sentence)"
      "\<And>sentence. same_conversation s (f sentence)"
      "\<And>sentence. playback_complete (audio (f sentence))"
    by metis
  show ?thesis
    unfolding process_chunk_def Let_def
    using assms
    by (simp add: f same_conversation_refl split: option.splits)
qed

lemma consume_complete:
  assumes "playback_complete (audio s)"
  shows "(\<exists>v' s'. consume ext chunks v s = Completed v' s' \<and> same_conversation s s'
            \<and> playback_complete (audio s'))
       \<or> (\<exists>s'. consume ext chunks v s = Abandoned s' \<and> same_conversation s s'
            \<and> playback_complete (audio s'))
       \<or> (\<exists>s'. consume ext chunks v s = Failed s' \<and> same_conversation s s'
            \<and> playback_complete (audio s'))"
  using assms
proof (induction chunks arbitrary: v s)
  case Nil
  then show ?case by (simp add: same_conversation_refl)
next
  case (Cons c cs)
  show ?case
  proof (cases "state_at_check c = Some PS_cancelled \<or> state_at_check c = Some PS_false")
    case True
    with Cons.prems show ?thesis by (simp add: same_conversation_refl)
  next
    case False
    from process_chunk_complete[OF Cons.prems, of ext c v]
    show ?thesis
    proof
      assume "\<exists>v' s'. process_chunk ext c v s = Continue v' s' \<and> same_conversation s s'
            \<and> playback_complete (audio s')"
      then obtain v1 s1 where p: "process_chunk ext c v s = Continue v1 s1"
        "same_conversation s s1" "playback_complete (audio s1)" by blast
      have eq: "consume ext (c # cs) v s = consume ext cs v1 s1" using False p(1) by simp
      from Cons.IH[OF p(3), of v1] show ?thesis
        unfolding eq using same_conversation_trans[OF p(2)] by blast
    next
      assume "process_chunk ext c v s = Fail s"
      with False Cons.prems show ?thesis by (simp add: same_conversation_refl)
    qed
  qed
qed

lemma consume_abandon:
  assumes "state_at_check c = Some PS_false \<or> state_at_check c = Some PS_cancelled"
  shows "consume ext (pre @ c # rest) v s =
           (case consume ext pre v s of Completed v' s' \<Rightarrow> Abandoned s' | r \<Rightarrow> r)"
proof (induction pre arbitrary: v s)
  case Nil
  from assms show ?case by auto
next
  case (Cons p pre)
  show ?case
    by (simp add: Cons.IH split: step_result.splits)
qed

subsection \<open>Invalidated pipelines\<close>

lemma handle_false_end_clears:
  "queued_audio (audio (handle_false_end s)) = []
   \<and> messages (handle_false_end s) = messages s
   \<and> messages_tentative (handle_false_end s) = messages_tentative s
   \<and> play_queued ext (handle_false_end s) = Some (handle_false_end s)"
proof -
  have q: "queued_audio (audio (handle_false_end s)) = []" by (simp add: handle_false_end_def)
  from play_queued_empty[OF q] q show ?thesis by (simp add: handle_false_end_def)
qed

text \<open>
  Claim C5, as stated: when the pipeline state becomes \<open>'false'\<close> or \<open>'cancelled'\<close> while
  the stream is consumed, the queued audio of the turn is cleared, so that nothing is
  played. The return at the validity check leaves the queue as it is, and only
  \<open>_handle_false_end\<close> empties it. When the state is found \<open>'cancelled'\<close> after the first
  sentence was queued, the call returns with that audio still queued, and the next
  \<open>_handle_speech_ended\<close> plays it.
\<close>

theorem cancelled_turn_keeps_queue_counterexample:
  \<open>map_option tts_calls
      (handle_transcription example_ext (turn_of None (invalidated_stream PS_cancelled))
         idle_manager) = Some [''Hello there.'']
   \<and> map_option (queued_audio \<circ> audio)
      (handle_transcription example_ext (turn_of None (invalidated_stream PS_cancelled))
         idle_manager) = Some [Some (text_bytes ''Hello there.'')]
   \<and> map_option (written \<circ> world \<circ> audio)
      (Option.bind (handle_transcription example_ext
          (turn_of None (invalidated_stream PS_cancelled)) idle_manager)
        (handle_speech_ended example_ext)) = Some [(1, text_bytes ''Hello there.'')]\<close>
  by code_simp

text \<open>
  Claim C5, amended. When the pipeline state read at the check that opens an iteration
  is \<open>'false'\<close> or \<open>'cancelled'\<close>, the loop stops there with the manager as the items
  before left it: the rest of the stream is not read, so no further sentence is
  synthesised or queued, and \<open>_handle_transcription\<close> returns with the committed messages,
  \<open>json_processed\<close>, \<open>current_response\<close> and the mode as before the call. The queue is
  emptied by \<open>_handle_false_end\<close>, which leaves the committed messages unchanged and
  after which a flush of the queue changes nothing.
\<close>

theorem invalid_state_abandons_stream:
  assumes "state_at_check c = Some PS_false \<or> state_at_check c = Some PS_cancelled"
    and "playback_complete (audio s)"
    and "llm inp = Stream (pre @ c # rest) ends_normally"
  shows "consume ext (pre @ c # rest) v s =
           (case consume ext pre v s of Completed v' s' \<Rightarrow> Abandoned s' | r \<Rightarrow> r)
     \<and> handle_transcription ext inp s
         = handle_transcription ext (inp\<lparr>llm := Stream (pre @ [c]) True\<rparr>) s
     \<and> (\<exists>s'. handle_transcription ext inp s = Some s'
            \<and> messages s' = messages s
            \<and> json_processed s' = json_processed s
            \<and> current_response s' = current_response s
            \<and> current_mode s' = current_mode s)
     \<and> queued_audio (audio (handle_false_end s)) = []
     \<and> messages (handle_false_end s) = messages s
     \<and> play_queued ext (handle_false_end s) = Some (handle_false_end s)"
proof -
  note ab = consume_abandon[OF assms(1), of ext]
  have a: "consume ext (pre @ c # rest) v s =
           (case consume ext pre v s of Completed v' s' \<Rightarrow> Abandoned s' | r \<Rightarrow> r)"
    by (rule ab)
  have b: "handle_transcription ext inp s
         = handle_transcription ext (inp\<lparr>llm := Stream (pre @ [c]) True\<rparr>) s"
    using assms(3)
    by (simp add: handle_transcription_def Let_def ab ab[where rest = "[]"]
          split: list.splits loop_result.splits)
  have c: "\<exists>s'. handle_transcription ext inp s = Some s'
            \<and> messages s' = messages s
            \<and> json_processed s' = json_processed s
            \<and> current_response s' = current_response s
            \<and> current_mode s' = current_mode s"
  proof (cases "transcription inp")
    case Nil
    then show ?thesis by (simp add: handle_transcription_def)
  next
    case (Cons utterance others)
    show ?thesis
    proof (cases "state_at_start inp = Some PS_cancelled \<or> state_at_start inp = Some PS_false")
      case True
      with Cons show ?thesis by (auto simp: handle_transcription_def)
    next
      case False
      let ?s0 = "s\<lparr>messages_tentative := messages s @ [\<lparr>role = ''user'', content = utterance\<rparr>]\<rparr>"
      have pc0: "playback_complete (audio ?s0)" using assms(2) by simp
      from consume_complete[OF pc0, of ext pre initial_vars]
      obtain r where r: "consume ext (pre @ c # rest) initial_vars ?s0 = Abandoned r
            \<or> consume ext (pre @ c # rest) initial_vars ?s0 = Failed r"
         "same_conversation ?s0 r"
        unfolding ab[of pre rest initial_vars ?s0] by auto
      note f = same_conversation_fields[OF r(2)]
      from r(1) have "handle_transcription ext inp s = Some r"
        using Cons False assms(3) by (auto simp: handle_transcription_def Let_def)
      with f show ?thesis by simp
    qed
  qed
  from a b c handle_false_end_clears[of s ext] show ?thesis by blast
qed

lemma invalidated_turn_eval:
  \<open>map_option tts_calls
      (handle_transcription example_ext (turn_of None (invalidated_stream PS_false))
         idle_manager) = Some [''Hello there.'']\<close>
  by code_simp

theorem invalid_state_abandons_stream_witness:
  \<open>(state_at_check (chunk_in (Some PS_false) '' you today? '') = Some PS_false
      \<or> state_at_check (chunk_in (Some PS_false) '' you today? '') = Some PS_cancelled)
   \<and> playback_complete (audio idle_manager)
   \<and> llm (turn_of None (invalidated_stream PS_false))
       = Stream ((response_opening @ [chunk_in None ''Hello there. How are''])
                 @ chunk_in (Some PS_false) '' you today? ''
                 # [chunk_in (Some PS_false) ''I am fine."}}'']) True
   \<and> (\<exists>s'. handle_transcription example_ext (turn_of None (invalidated_stream PS_false))
               idle_manager = Some s'
          \<and> messages s' = messages idle_manager
          \<and> tts_calls s' = [''Hello there.''])
   \<and> queued_audio (audio (handle_false_end idle_manager)) = []\<close>
proof -
  have h1: "state_at_check (chunk_in (Some PS_false) '' you today? '') = Some PS_false
      \<or> state_at_check (chunk_in (Some PS_false) '' you today? '') = Some PS_cancelled"
    by (simp add: chunk_in_def)
  have h2: "playback_complete (audio idle_manager)" by (simp add: idle_manager_def)
  have h3: \<open>llm (turn_of None (invalidated_stream PS_false))
       = Stream ((response_opening @ [chunk_in None ''Hello there. How are''])
                 @ chunk_in (Some PS_false) '' you today? ''
                 # [chunk_in (Some PS_false) ''I am fine."}}'']) True\<close>
    by (simp add: turn_of_def invalidated_stream_def)
  from invalid_state_abandons_stream [OF h1 h2 h3, of example_ext]
  obtain s' where s': "handle_transcription example_ext
        (turn_of None (invalidated_stream PS_false)) idle_manager = Some s'"
    "messages s' = messages idle_manager"
    and q: "queued_audio (audio (handle_false_end idle_manager)) = []"
    by blast
  from s'(1) invalidated_turn_eval have "tts_calls s' = [''Hello there.'']" by simp
  with h1 h2 h3 s' q show ?thesis by blast
qed

subsection \<open>Completion of the stream\<close>









end
